theory Spec2Isabelle
  imports Complex_Main "HOL-Library.Word" "HOL-Library.AList" "HOL-Library.Monad_Syntax"
begin

unbundle bit_operations_syntax

section \<open>The scripting engine as the source uses it\<close>

text \<open>
  \<^verbatim>\<open>src/src/common/LuaSupport.cpp\<close> drives a Lua 5.1 engine through its C interface. The
  engine itself is not part of the repository, so the calls the source makes are modelled after
  the Lua 5.1 reference manual, on a state that holds what those calls read and write: the
  operand stack of the running C frame, the table of globals, the heap of tables and the heap of
  function closures with their environments. Metatables, coroutines, userdata and the garbage
  collector are left out: no call of the source installs a metatable, and the tables the source
  writes to are freshly created ones.
\<close>

datatype tvalue =
    Nil
  | Boolean bool
  | Number real
  | String string
  | Table nat
  | Function nat

text \<open>The C functions the source registers with the engine.\<close>

datatype cfunction = lua_limitRange_fn | lua_FFTForward_fn

text \<open>
  What a closure runs: a chunk compiled from script text, a function defined by a script, or a
  C function.
\<close>

datatype code = Chunk string | Scripted nat | CFunction cfunction

text \<open>
  The environment of a closure is a table: the table of globals (the default) or a table of the
  heap installed with \<^verbatim>\<open>lua_setfenv\<close>.
\<close>

datatype env = Globals | EnvTable nat

type_synonym table = "(tvalue \<times> tvalue) list"

record lua_State =
  stack :: "tvalue list"
  globals :: table
  tables :: "nat \<Rightarrow> table option"
  closures :: "nat \<Rightarrow> (code \<times> env) option"
  next_ref :: nat

text \<open>
  The stack is kept with its top first: index \<open>-1\<close> is the head of the list. The source
  only uses negative indices. \<^verbatim>\<open>index2adr\<close> is the engine's address computation; an index that
  reaches below the frame is not acceptable and gives \<open>None\<close>.
\<close>

definition index2adr :: "int \<Rightarrow> tvalue list \<Rightarrow> tvalue option" where
  "index2adr idx st =
     (if idx < 0 \<and> nat (- idx) \<le> length st then Some (st ! (nat (- idx) - 1)) else None)"

definition lua_gettop :: "lua_State \<Rightarrow> int" where
  "lua_gettop L = int (length (stack L))"

subsection \<open>Tables\<close>

text \<open>
  A table is the list of its entries. \<open>rawget\<close> reads a key (a missing key reads as nil);
  \<open>rawset\<close> assigns one, and assigning nil removes the entry, as in Lua.
\<close>

definition rawget :: "table \<Rightarrow> tvalue \<Rightarrow> tvalue" where
  "rawget t k = (case map_of t k of None \<Rightarrow> Nil | Some v \<Rightarrow> v)"

definition rawset :: "table \<Rightarrow> tvalue \<Rightarrow> tvalue \<Rightarrow> table" where
  "rawset t k v = (if v = Nil then AList.delete k t else AList.update k v t)"

text \<open>
  The length of a table is a border: an \<open>n\<close> with \<open>t[n]\<close> present (or \<open>n = 0\<close>) and
  \<open>t[n+1]\<close> absent. For a sequence without holes this is its length. Where a table has several
  borders the engine may return any of them; the model returns the first.
\<close>

definition objlen :: "table \<Rightarrow> nat" where
  "objlen t =
     (case find (\<lambda>n. map_of t (Number (real (Suc n))) = None) [0..<Suc (length t)] of
        Some n \<Rightarrow> n
      | None \<Rightarrow> length t)"

subsection \<open>Types\<close>

datatype lua_type = LUA_TNIL | LUA_TBOOLEAN | LUA_TNUMBER | LUA_TSTRING | LUA_TTABLE | LUA_TFUNCTION

fun type_of_value :: "tvalue \<Rightarrow> lua_type" where
  "type_of_value Nil = LUA_TNIL"
| "type_of_value (Boolean b) = LUA_TBOOLEAN"
| "type_of_value (Number x) = LUA_TNUMBER"
| "type_of_value (String s) = LUA_TSTRING"
| "type_of_value (Table r) = LUA_TTABLE"
| "type_of_value (Function f) = LUA_TFUNCTION"

fun lua_typename :: "lua_type \<Rightarrow> string" where
  "lua_typename LUA_TNIL = ''nil''"
| "lua_typename LUA_TBOOLEAN = ''boolean''"
| "lua_typename LUA_TNUMBER = ''number''"
| "lua_typename LUA_TSTRING = ''string''"
| "lua_typename LUA_TTABLE = ''table''"
| "lua_typename LUA_TFUNCTION = ''function''"

definition lua_isfunction :: "int \<Rightarrow> lua_State \<Rightarrow> bool" where
  "lua_isfunction idx L =
     (case index2adr idx (stack L) of Some v \<Rightarrow> type_of_value v = LUA_TFUNCTION | None \<Rightarrow> False)"

definition lua_isnil :: "int \<Rightarrow> lua_State \<Rightarrow> bool" where
  "lua_isnil idx L =
     (case index2adr idx (stack L) of Some v \<Rightarrow> type_of_value v = LUA_TNIL | None \<Rightarrow> False)"

subsection \<open>Stack and table calls\<close>

text \<open>
  A call returns \<open>None\<close> where the engine does not return to the caller with a defined
  state: the index is not acceptable, the value addressed is not of the kind the call requires,
  or the engine raises an error (a nil table key) that the calling host function does not catch.
\<close>

definition lua_pushnil :: "lua_State \<Rightarrow> lua_State option" where
  "lua_pushnil L = Some (L\<lparr>stack := Nil # stack L\<rparr>)"

definition lua_pushstring :: "string \<Rightarrow> lua_State \<Rightarrow> lua_State option" where
  "lua_pushstring s L = Some (L\<lparr>stack := String s # stack L\<rparr>)"

definition lua_pushnumber :: "real \<Rightarrow> lua_State \<Rightarrow> lua_State option" where
  "lua_pushnumber x L = Some (L\<lparr>stack := Number x # stack L\<rparr>)"

definition lua_pushvalue :: "int \<Rightarrow> lua_State \<Rightarrow> lua_State option" where
  "lua_pushvalue idx L =
     (case index2adr idx (stack L) of
        Some v \<Rightarrow> Some (L\<lparr>stack := v # stack L\<rparr>)
      | None \<Rightarrow> None)"

definition lua_pop :: "nat \<Rightarrow> lua_State \<Rightarrow> lua_State option" where
  "lua_pop n L = (if n \<le> length (stack L) then Some (L\<lparr>stack := drop n (stack L)\<rparr>) else None)"

definition lua_remove :: "int \<Rightarrow> lua_State \<Rightarrow> lua_State option" where
  "lua_remove idx L =
     (if idx < 0 \<and> nat (- idx) \<le> length (stack L)
      then Some (L\<lparr>stack := take (nat (- idx) - 1) (stack L) @ drop (nat (- idx)) (stack L)\<rparr>)
      else None)"

text \<open>\<^verbatim>\<open>lua_createtable\<close>: a new empty table; the two size hints only preallocate.\<close>

definition lua_createtable :: "int \<Rightarrow> int \<Rightarrow> lua_State \<Rightarrow> lua_State option" where
  "lua_createtable narr nrec L =
     Some (L\<lparr>stack := Table (next_ref L) # stack L,
             tables := (tables L)(next_ref L \<mapsto> []),
             next_ref := Suc (next_ref L)\<rparr>)"

definition lua_newtable :: "lua_State \<Rightarrow> lua_State option" where
  "lua_newtable L = lua_createtable 0 0 L"

text \<open>
  \<^verbatim>\<open>lua_pushcfunction\<close>: a new closure of the C function, with the environment of the caller
  (the table of globals, for a call from the host).
\<close>

definition lua_pushcfunction :: "cfunction \<Rightarrow> lua_State \<Rightarrow> lua_State option" where
  "lua_pushcfunction f L =
     Some (L\<lparr>stack := Function (next_ref L) # stack L,
             closures := (closures L)(next_ref L \<mapsto> (CFunction f, Globals)),
             next_ref := Suc (next_ref L)\<rparr>)"

definition lua_getglobal :: "string \<Rightarrow> lua_State \<Rightarrow> lua_State option" where
  "lua_getglobal name L = Some (L\<lparr>stack := rawget (globals L) (String name) # stack L\<rparr>)"

definition lua_setglobal :: "string \<Rightarrow> lua_State \<Rightarrow> lua_State option" where
  "lua_setglobal name L =
     (case stack L of
        v # rest \<Rightarrow> Some (L\<lparr>stack := rest, globals := rawset (globals L) (String name) v\<rparr>)
      | [] \<Rightarrow> None)"

text \<open>
  \<^verbatim>\<open>lua_settable(L, idx)\<close>: \<open>t[k] = v\<close> for the table at \<open>idx\<close>, the value on top and the key
  below it; both are popped. The index is resolved before they are popped.
\<close>

definition lua_settable :: "int \<Rightarrow> lua_State \<Rightarrow> lua_State option" where
  "lua_settable idx L =
     (case (index2adr idx (stack L), stack L) of
        (Some (Table r), v # k # rest) \<Rightarrow>
          (case tables L r of
             Some t \<Rightarrow>
               if k = Nil then None
               else Some (L\<lparr>stack := rest, tables := (tables L)(r \<mapsto> rawset t k v)\<rparr>)
           | None \<Rightarrow> None)
      | _ \<Rightarrow> None)"

definition lua_rawgeti :: "int \<Rightarrow> int \<Rightarrow> lua_State \<Rightarrow> lua_State option" where
  "lua_rawgeti idx n L =
     (case index2adr idx (stack L) of
        Some (Table r) \<Rightarrow>
          (case tables L r of
             Some t \<Rightarrow> Some (L\<lparr>stack := rawget t (Number (real_of_int n)) # stack L\<rparr>)
           | None \<Rightarrow> None)
      | _ \<Rightarrow> None)"

definition lua_rawseti :: "int \<Rightarrow> int \<Rightarrow> lua_State \<Rightarrow> lua_State option" where
  "lua_rawseti idx n L =
     (case (index2adr idx (stack L), stack L) of
        (Some (Table r), v # rest) \<Rightarrow>
          (case tables L r of
             Some t \<Rightarrow>
               Some (L\<lparr>stack := rest,
                       tables := (tables L)(r \<mapsto> rawset t (Number (real_of_int n)) v)\<rparr>)
           | None \<Rightarrow> None)
      | _ \<Rightarrow> None)"

text \<open>\<^verbatim>\<open>lua_objlen\<close> returns a \<^verbatim>\<open>size_t\<close>: the length of a table or string, 0 otherwise.\<close>

definition lua_objlen :: "int \<Rightarrow> lua_State \<Rightarrow> 64 word" where
  "lua_objlen idx L =
     (case index2adr idx (stack L) of
        Some (Table r) \<Rightarrow> (case tables L r of Some t \<Rightarrow> of_nat (objlen t) | None \<Rightarrow> 0)
      | Some (String s) \<Rightarrow> of_nat (length s)
      | _ \<Rightarrow> 0)"

text \<open>
  \<^verbatim>\<open>lua_setfenv(L, idx)\<close>: the table on top becomes the environment of the function at
  \<open>idx\<close> and is popped. The table is popped also when the value at \<open>idx\<close> is no function;
  the call then reports 0.
\<close>

definition lua_setfenv :: "int \<Rightarrow> lua_State \<Rightarrow> (int \<times> lua_State) option" where
  "lua_setfenv idx L =
     (case (index2adr idx (stack L), stack L) of
        (Some o_val, Table r # rest) \<Rightarrow>
          (case o_val of
             Function f \<Rightarrow>
               (case closures L f of
                  Some (c, e) \<Rightarrow>
                    Some (1, L\<lparr>stack := rest, closures := (closures L)(f \<mapsto> (c, EnvTable r))\<rparr>)
                | None \<Rightarrow> None)
           | _ \<Rightarrow> Some (0, L\<lparr>stack := rest\<rparr>))
      | _ \<Rightarrow> None)"

text \<open>
  \<^verbatim>\<open>lua_next(L, idx)\<close> pops a key and pushes the entry that follows it in the table at
  \<open>idx\<close> (the first entry after the key nil), or pushes nothing and returns 0 when there is
  none. The order of the entries is the engine's; here it is the order of the list. A key that
  is not in the table is an error.
\<close>

definition next_entry :: "table \<Rightarrow> tvalue \<Rightarrow> (tvalue \<times> tvalue) option option" where
  "next_entry t k =
     (if k = Nil then Some (case t of [] \<Rightarrow> None | e # _ \<Rightarrow> Some e)
      else (case dropWhile (\<lambda>e. fst e \<noteq> k) t of
              [] \<Rightarrow> None
            | _ # [] \<Rightarrow> Some None
            | _ # e # _ \<Rightarrow> Some (Some e)))"

definition lua_next :: "int \<Rightarrow> lua_State \<Rightarrow> (bool \<times> lua_State) option" where
  "lua_next idx L =
     (case (index2adr idx (stack L), stack L) of
        (Some (Table r), k # rest) \<Rightarrow>
          (case tables L r of
             Some t \<Rightarrow>
               (case next_entry t k of
                  Some (Some (k', v')) \<Rightarrow> Some (True, L\<lparr>stack := v' # k' # rest\<rparr>)
                | Some None \<Rightarrow> Some (False, L\<lparr>stack := rest\<rparr>)
                | None \<Rightarrow> None)
           | None \<Rightarrow> None)
      | _ \<Rightarrow> None)"

subsection \<open>Compiling and calling\<close>

text \<open>
  The parser and the virtual machine are outside the repository. They are parameters of the
  model: \<open>parse\<close> says whether a text compiles (and with which message it fails), \<open>run\<close>
  says what calling a closure does to the state and what it returns or raises, and the two
  conversions are the engine's between numbers and strings.
\<close>

datatype status = LUA_OK | LUA_YIELD | LUA_ERRRUN | LUA_ERRSYNTAX | LUA_ERRMEM | LUA_ERRERR

datatype load_error = SyntaxFailure | MemoryFailure

datatype call_error = RuntimeFailure | CallMemoryFailure | HandlerFailure

fun status_of_load :: "load_error \<Rightarrow> status" where
  "status_of_load SyntaxFailure = LUA_ERRSYNTAX"
| "status_of_load MemoryFailure = LUA_ERRMEM"

fun status_of_call :: "call_error \<Rightarrow> status" where
  "status_of_call RuntimeFailure = LUA_ERRRUN"
| "status_of_call CallMemoryFailure = LUA_ERRMEM"
| "status_of_call HandlerFailure = LUA_ERRERR"

datatype load_result = Compiled | LoadFailed load_error string

datatype run_result = Finished "tvalue list" lua_State | Errored call_error "tvalue" lua_State

record engine =
  parse :: "string \<Rightarrow> string \<Rightarrow> load_result"
  run :: "nat \<Rightarrow> tvalue list \<Rightarrow> lua_State \<Rightarrow> run_result"
  number2str :: "real \<Rightarrow> string"
  str2number :: "string \<Rightarrow> real option"

text \<open>A C string ends at the first zero byte.\<close>

definition c_str :: "string \<Rightarrow> string" where
  "c_str s = takeWhile (\<lambda>c. c \<noteq> CHR 0x00) s"

definition strlen :: "string \<Rightarrow> nat" where
  "strlen s = length (c_str s)"

text \<open>
  \<^verbatim>\<open>luaL_loadbuffer(L, buff, sz, name)\<close> compiles the first \<open>sz\<close> bytes of the buffer. It
  pushes the compiled chunk as a new function and returns 0, or pushes the message and returns
  the error status.
\<close>

definition luaL_loadbuffer ::
  "engine \<Rightarrow> string \<Rightarrow> nat \<Rightarrow> string \<Rightarrow> lua_State \<Rightarrow> (status \<times> lua_State) option" where
  "luaL_loadbuffer E buff sz name L =
     (case parse E (take sz buff) name of
        Compiled \<Rightarrow>
          Some (LUA_OK,
                L\<lparr>stack := Function (next_ref L) # stack L,
                  closures := (closures L)(next_ref L \<mapsto> (Chunk (take sz buff), Globals)),
                  next_ref := Suc (next_ref L)\<rparr>)
      | LoadFailed e msg \<Rightarrow> Some (status_of_load e, L\<lparr>stack := String msg # stack L\<rparr>))"

text \<open>
  \<^verbatim>\<open>lua_pcall(L, nargs, nresults, 0)\<close> pops the arguments and the function below them and
  calls it in protected mode. On success it pushes the results, adjusted to \<open>nresults\<close>
  values, the last one on top; on an error it pushes the error object instead. The stack below
  the function is as it was. A value that is no function cannot be called: that is a runtime
  error of the engine.
\<close>

definition lua_pcall :: "engine \<Rightarrow> nat \<Rightarrow> nat \<Rightarrow> lua_State \<Rightarrow> (status \<times> lua_State) option" where
  "lua_pcall E nargs nresults L =
     (if length (stack L) < Suc nargs then None
      else
        (let args = rev (take nargs (stack L));
             fn = stack L ! nargs;
             rest = drop (Suc nargs) (stack L)
         in case fn of
              Function f \<Rightarrow>
                (case run E f args (L\<lparr>stack := rest\<rparr>) of
                   Finished rs L1 \<Rightarrow>
                     Some (LUA_OK,
                           L1\<lparr>stack := rev (take nresults (rs @ replicate nresults Nil)) @ rest\<rparr>)
                 | Errored e v L1 \<Rightarrow> Some (status_of_call e, L1\<lparr>stack := v # rest\<rparr>))
            | v \<Rightarrow>
                Some (LUA_ERRRUN,
                      L\<lparr>stack := String (''attempt to call a '' @ lua_typename (type_of_value v)
                                            @ '' value'') # rest\<rparr>)))"

text \<open>
  \<^verbatim>\<open>lua_tostring\<close> gives the C string of a string or number (a number is converted in
  place) and a null pointer for any other value.
\<close>

definition lua_tostring :: "engine \<Rightarrow> int \<Rightarrow> lua_State \<Rightarrow> string option \<times> lua_State" where
  "lua_tostring E idx L =
     (case index2adr idx (stack L) of
        Some (String s) \<Rightarrow> (Some (c_str s), L)
      | Some (Number x) \<Rightarrow>
          (Some (c_str (number2str E x)),
           L\<lparr>stack := (stack L)[nat (- idx) - 1 := String (number2str E x)]\<rparr>)
      | _ \<Rightarrow> (None, L))"

section \<open>The script loader\<close>

text \<open>
  \<^verbatim>\<open>Surge::LuaSupport::parseStringDefiningMultipleFunctions\<close>. The result is the count, the
  engine state and the diagnostic string (passed by reference in the source). Writing a null
  pointer to the string stream has no defined behaviour, so the model gives \<open>None\<close> there.
\<close>

fun push_nils :: "string list \<Rightarrow> lua_State \<Rightarrow> lua_State option" where
  "push_nils [] L = Some L"
| "push_nils (f # fs) L = do { L \<leftarrow> lua_pushnil L; push_nils fs L }"

fun extract_loop :: "string list \<Rightarrow> int \<Rightarrow> lua_State \<Rightarrow> (int \<times> lua_State) option" where
  "extract_loop [] res L = Some (res, L)"
| "extract_loop (functionName # fs) res L =
     do {
       L \<leftarrow> lua_getglobal (c_str functionName) L;
       if lua_isfunction (-1) L then extract_loop fs (res + 1) L
       else if \<not> lua_isnil (-1) L then
         do {
           L \<leftarrow> lua_pop 1 L;
           L \<leftarrow> lua_pushnil L;
           extract_loop fs res L
         }
       else extract_loop fs res L
     }"

definition parseStringDefiningMultipleFunctions ::
  "engine \<Rightarrow> lua_State \<Rightarrow> string \<Rightarrow> string list \<Rightarrow> string \<Rightarrow> (int \<times> lua_State \<times> string) option" where
  "parseStringDefiningMultipleFunctions E L definition functions errorMessage =
     do {
       let lua_script = c_str definition;
       (lerr, L) \<leftarrow> luaL_loadbuffer E lua_script (strlen lua_script) ''lua-script'' L;
       if lerr \<noteq> LUA_OK then
         (case lua_tostring E (-1) L of
            (None, L) \<Rightarrow> None
          | (Some msg, L) \<Rightarrow>
              do {
                let errorMessage =
                      (if lerr = LUA_ERRSYNTAX then ''Lua Syntax Error: '' @ msg
                       else ''Lua Unknown Error: '' @ msg);
                L \<leftarrow> lua_pop 1 L;
                L \<leftarrow> push_nils functions L;
                Some (0, L, errorMessage)
              })
       else
         do {
           (lerr, L) \<leftarrow> lua_pcall E 0 0 L;
           if lerr \<noteq> LUA_OK then
             (case lua_tostring E (-1) L of
                (None, L) \<Rightarrow> None
              | (Some msg, L) \<Rightarrow>
                  do {
                    let errorMessage = ''Lua Evaluation Error: '' @ msg;
                    L \<leftarrow> lua_pop 1 L;
                    L \<leftarrow> push_nils functions L;
                    Some (0, L, errorMessage)
                  })
           else
             do {
               let res = 0;
               let frev = rev functions;
               (res, L) \<leftarrow> extract_loop frev res L;
               Some (res, L, errorMessage)
             }
         }
     }"

definition parseStringDefiningFunction ::
  "engine \<Rightarrow> lua_State \<Rightarrow> string \<Rightarrow> string \<Rightarrow> string \<Rightarrow> (bool \<times> lua_State \<times> string) option" where
  "parseStringDefiningFunction E L definition functionName errorMessage =
     do {
       (res, L, errorMessage) \<leftarrow>
         parseStringDefiningMultipleFunctions E L definition [functionName] errorMessage;
       if res \<noteq> 1 then Some (False, L, errorMessage) else Some (True, L, errorMessage)
     }"

section \<open>The transform resource cache\<close>

text \<open>
  Native memory is a map from addresses to what was allocated there: an aligned buffer of so
  many bytes (\<^verbatim>\<open>pffft_aligned_malloc\<close>) or a transform plan for real transforms of length
  \<open>N\<close> (\<^verbatim>\<open>pffft_new_setup(N, PFFFT_REAL)\<close>). Allocation is assumed to succeed.
\<close>

datatype native = AlignedBuffer nat | PFFFT_Setup int

record native_heap =
  allocs :: "nat \<Rightarrow> native option"
  next_addr :: nat

definition pffft_aligned_malloc :: "64 word \<Rightarrow> native_heap \<Rightarrow> nat \<times> native_heap" where
  "pffft_aligned_malloc nbytes H =
     (next_addr H,
      H\<lparr>allocs := (allocs H)(next_addr H \<mapsto> AlignedBuffer (unat nbytes)),
        next_addr := Suc (next_addr H)\<rparr>)"

definition pffft_new_setup :: "int \<Rightarrow> native_heap \<Rightarrow> nat \<times> native_heap" where
  "pffft_new_setup N H =
     (next_addr H,
      H\<lparr>allocs := (allocs H)(next_addr H \<mapsto> PFFFT_Setup N),
        next_addr := Suc (next_addr H)\<rparr>)"

definition native_free :: "nat \<Rightarrow> native_heap \<Rightarrow> native_heap" where
  "native_free a H = H\<lparr>allocs := (allocs H)(a := None)\<rparr>"

text \<open>
  \<^verbatim>\<open>struct FFTElement\<close>: the size, the buffer and the plan. The constructor allocates both,
  the destructor frees both. \<^verbatim>\<open>sizeof(float)\<close> is 4; the product is computed in
  \<^verbatim>\<open>size_t\<close>, and the size is converted to \<^verbatim>\<open>int\<close> for the plan.
\<close>

record FFTElement =
  size_fft :: "64 word"
  data :: nat
  setup_fft :: nat

definition FFTElement_new :: "64 word \<Rightarrow> native_heap \<Rightarrow> FFTElement \<times> native_heap" where
  "FFTElement_new sz H =
     (let (d, H) = pffft_aligned_malloc (4 * sz) H;
          (s, H) = pffft_new_setup (sint (ucast sz :: 32 word)) H
      in (\<lparr>size_fft = sz, data = d, setup_fft = s\<rparr>, H))"

definition FFTElement_delete :: "FFTElement \<Rightarrow> native_heap \<Rightarrow> native_heap" where
  "FFTElement_delete e H = native_free (setup_fft e) (native_free (data e) H)"

text \<open>
  Modelled from the spec: the class \<^verbatim>\<open>sst::cpputils::LRU\<close> (\<^verbatim>\<open>sst/cpputils/lru_cache.h\<close>)
  is not among the source files. A cache has a fixed capacity and maps sizes to elements; the
  entries are kept most recently used first.
\<close>

record LRU =
  capacity :: nat
  items :: "(64 word \<times> FFTElement) list"

text \<open>
  Modelled from the spec: \<^verbatim>\<open>LRU::get\<close>, which is not among the source files. Section 4.1 of
  the specification gives its contract: on a hit it returns the existing resource and marks it
  most recently used; on a miss it constructs a new resource, inserts it and, if the cache now
  exceeds its capacity, evicts the least recently used entry, releasing its buffer and plan.
  The element is constructed in place.
\<close>

definition LRU_get :: "64 word \<Rightarrow> LRU \<times> native_heap \<Rightarrow> FFTElement \<times> LRU \<times> native_heap" where
  "LRU_get k CH =
     (case CH of (C, H) \<Rightarrow>
        (case map_of (items C) k of
           Some e \<Rightarrow> (e, C\<lparr>items := (k, e) # filter (\<lambda>kv. fst kv \<noteq> k) (items C)\<rparr>, H)
         | None \<Rightarrow>
             (let (e, H) = FFTElement_new k H;
                  its = (k, e) # items C
              in if capacity C < length its
                 then (e, C\<lparr>items := butlast its\<rparr>, FFTElement_delete (snd (last its)) H)
                 else (e, C\<lparr>items := its\<rparr>, H))))"

text \<open>\<^verbatim>\<open>fftCache\<close>: capacity 5, empty at first.\<close>

definition fftCache :: LRU where
  "fftCache = \<lparr>capacity = 5, items = []\<rparr>"

definition no_native :: native_heap where
  "no_native = \<lparr>allocs = (\<lambda>a. None), next_addr = 0\<rparr>"

section \<open>The numeric primitive bridge\<close>

definition IsPowerOfTwo :: "64 word \<Rightarrow> bool" where
  "IsPowerOfTwo x = (x \<noteq> 0 \<and> (x AND (x - 1)) = 0)"

text \<open>
  A C function called by the engine returns, or raises an error into the engine (caught by a
  protected call of the calling script, never seen by the host as an exception), or steps
  outside what the C interface defines.
\<close>

datatype lua_error = ErrorMessage string | BadArgument int string string

datatype 'a outcome = Returns 'a | Raises lua_error | Undefined

definition luaL_error :: "string \<Rightarrow> 'a outcome" where
  "luaL_error msg = Raises (ErrorMessage msg)"

definition luaL_checktype :: "int \<Rightarrow> lua_type \<Rightarrow> lua_State \<Rightarrow> unit outcome" where
  "luaL_checktype narg t L =
     (case index2adr narg (stack L) of
        Some v \<Rightarrow>
          if type_of_value v \<noteq> t
          then Raises (BadArgument narg (lua_typename t) (lua_typename (type_of_value v)))
          else Returns ()
      | None \<Rightarrow> Undefined)"

definition luaL_checknumber :: "engine \<Rightarrow> int \<Rightarrow> lua_State \<Rightarrow> real outcome" where
  "luaL_checknumber E narg L =
     (case index2adr narg (stack L) of
        Some (Number x) \<Rightarrow> Returns x
      | Some (String s) \<Rightarrow>
          (case str2number E s of
             Some x \<Rightarrow> Returns x
           | None \<Rightarrow> Raises (BadArgument narg ''number'' ''string''))
      | Some v \<Rightarrow> Raises (BadArgument narg ''number'' (lua_typename (type_of_value v)))
      | None \<Rightarrow> Undefined)"

text \<open>
  \<^verbatim>\<open>lua_FFTForward\<close>. The first loop fills \<^verbatim>\<open>input\<close>, the second writes \<^verbatim>\<open>output\<close> into
  the new table; both count \<open>i\<close> up to \<open>n\<close>. The transform itself (\<^verbatim>\<open>pffft_transform\<close>)
  is a parameter: from the length of the plan and the input to the \<open>n\<close> values of the output.
\<close>

fun read_input ::
  "engine \<Rightarrow> nat \<Rightarrow> nat \<Rightarrow> lua_State \<Rightarrow> real list \<Rightarrow> (real list \<times> lua_State) outcome" where
  "read_input E i 0 L input = Returns (input, L)"
| "read_input E i (Suc k) L input =
     (case lua_rawgeti (-1) (int i + 1) L of
        None \<Rightarrow> Undefined
      | Some L \<Rightarrow>
          (case luaL_checknumber E (-2) L of
             Raises e \<Rightarrow> Raises e
           | Undefined \<Rightarrow> Undefined
           | Returns x \<Rightarrow>
               (case lua_remove (-2) L of
                  None \<Rightarrow> Undefined
                | Some L \<Rightarrow> read_input E (Suc i) k L (input @ [x]))))"

fun write_output :: "real list \<Rightarrow> nat \<Rightarrow> nat \<Rightarrow> lua_State \<Rightarrow> lua_State option" where
  "write_output output i 0 L = Some L"
| "write_output output i (Suc k) L =
     do {
       L \<leftarrow> lua_pushnumber (output ! i) L;
       L \<leftarrow> lua_rawseti (-1) (int i + 1) L;
       write_output output (Suc i) k L
     }"

definition lua_FFTForward ::
  "engine \<Rightarrow> (int \<Rightarrow> real list \<Rightarrow> real list) \<Rightarrow> LRU \<times> native_heap \<Rightarrow> lua_State
     \<Rightarrow> (int \<times> lua_State) outcome \<times> LRU \<times> native_heap" where
  "lua_FFTForward E pffft_transform CH L =
     (case luaL_checktype (-1) LUA_TTABLE L of
        Raises e \<Rightarrow> (Raises e, CH)
      | Undefined \<Rightarrow> (Undefined, CH)
      | Returns u \<Rightarrow>
          (let n = lua_objlen (-1) L in
           if \<not> IsPowerOfTwo n then (luaL_error ''FFT size must be a power of two.'', CH)
           else
             (let (fft, CH) = LRU_get n CH in
              case read_input E 0 (unat n) L [] of
                Raises e \<Rightarrow> (Raises e, CH)
              | Undefined \<Rightarrow> (Undefined, CH)
              | Returns (input, L) \<Rightarrow>
                  (case allocs (snd CH) (setup_fft fft) of
                     Some (PFFFT_Setup N) \<Rightarrow>
                       (let output = pffft_transform N input in
                        case do {
                               L \<leftarrow> lua_remove (-1) L;
                               L \<leftarrow> lua_newtable L;
                               write_output output 0 (unat n) L
                             } of
                          None \<Rightarrow> (Undefined, CH)
                        | Some L \<Rightarrow> (Returns (1, L), CH))
                   | _ \<Rightarrow> (Undefined, CH)))))"

section \<open>The function environment builder\<close>

text \<open>
  \<^verbatim>\<open>Surge::LuaSupport::setSurgeFunctionEnvironment\<close>, call by call. The loop over the
  whitelist is a recursion over the list of names; the \<^verbatim>\<open>while (lua_next(L, -2))\<close> loop runs as
  long as the engine hands out entries, so it is a partial function.
\<close>

definition functionWhitelist :: "string list" where
  "functionWhitelist = [''ipairs'', ''error'']"

fun whitelist_loop :: "string list \<Rightarrow> lua_State \<Rightarrow> lua_State option" where
  "whitelist_loop [] L = Some L"
| "whitelist_loop (f # fs) L =
     do {
       L \<leftarrow> lua_pushstring f L;
       L \<leftarrow> lua_getglobal f L;
       L \<leftarrow> lua_settable (-3) L;
       whitelist_loop fs L
     }"

partial_function (option) math_loop :: "lua_State \<Rightarrow> lua_State option" where
  "math_loop L =
     do {
       (more, L) \<leftarrow> lua_next (-2) L;
       if more then
         do {
           L \<leftarrow> lua_pushvalue (-2) L;
           L \<leftarrow> lua_pushvalue (-2) L;
           L \<leftarrow> lua_settable (-6) L;
           L \<leftarrow> lua_pop 1 L;
           math_loop L
         }
       else Some L
     }"

definition setSurgeFunctionEnvironment :: "lua_State \<Rightarrow> (bool \<times> lua_State) option" where
  "setSurgeFunctionEnvironment L =
     (if \<not> lua_isfunction (-1) L then Some (False, L)
      else
        do {
          L \<leftarrow> lua_createtable 0 10 L;
          L \<leftarrow> lua_pushstring ''math'' L;
          L \<leftarrow> lua_getglobal ''math'' L;
          L \<leftarrow> lua_settable (-3) L;
          L \<leftarrow> lua_pushstring ''surge'' L;
          L \<leftarrow> lua_getglobal ''surge'' L;
          L \<leftarrow> lua_settable (-3) L;
          L \<leftarrow> whitelist_loop functionWhitelist L;
          L \<leftarrow> lua_pushstring ''limit_range'' L;
          L \<leftarrow> lua_pushcfunction lua_limitRange_fn L;
          L \<leftarrow> lua_settable (-3) L;
          L \<leftarrow> lua_pushstring ''clamp'' L;
          L \<leftarrow> lua_pushcfunction lua_limitRange_fn L;
          L \<leftarrow> lua_settable (-3) L;
          L \<leftarrow> lua_pushstring ''fft_forward'' L;
          L \<leftarrow> lua_pushcfunction lua_FFTForward_fn L;
          L \<leftarrow> lua_settable (-3) L;
          L \<leftarrow> lua_getglobal ''math'' L;
          L \<leftarrow> lua_pushnil L;
          L \<leftarrow> math_loop L;
          L \<leftarrow> lua_pop 1 L;
          (res, L) \<leftarrow> lua_setfenv (-2) L;
          Some (True, L)
        })"

section \<open>The stack-discipline guard\<close>

text \<open>
  \<^verbatim>\<open>SGLD\<close> holds a label, the engine pointer (here: whether it is non-null) and the depth of
  the stack read when the guard was built; these are the members its destructor reads.
\<close>

record SGLD =
  label :: string
  L_set :: bool
  top :: int

fun show_nat_fuel :: "nat \<Rightarrow> nat \<Rightarrow> string" where
  "show_nat_fuel 0 n = []"
| "show_nat_fuel (Suc f) n =
     (if n < 10 then [char_of (48 + n)]
      else show_nat_fuel f (n div 10) @ [char_of (48 + n mod 10)])"

definition show_nat :: "nat \<Rightarrow> string" where
  "show_nat n = show_nat_fuel (Suc n) n"

definition show_int :: "int \<Rightarrow> string" where
  "show_int i = (if i < 0 then CHR ''-'' # show_nat (nat (- i)) else show_nat (nat i))"

text \<open>
  The destructor. \<open>out\<close> is what has been written to the standard output so far, one entry
  per line; the engine state is only read.
\<close>

definition SGLD_destroy :: "SGLD \<Rightarrow> lua_State \<Rightarrow> string list \<Rightarrow> lua_State \<times> string list" where
  "SGLD_destroy g L out =
     (if L_set g then
        (let nt = lua_gettop L in
         if nt \<noteq> top g then
           (L, out @ [''Guarded stack leak: ['' @ label g @ ''] exit='' @ show_int nt
                        @ '' enter='' @ show_int (top g)])
         else (L, out))
      else (L, out))"

text \<open>
  Modelled from the spec: the constructor of \<^verbatim>\<open>SGLD\<close> is declared in \<^verbatim>\<open>LuaSupport.h\<close>, which
  is not among the source files. Section 4.5 of the specification: on construction the guard
  records the current operand-stack depth under a caller-supplied label.
\<close>

definition SGLD_create :: "string \<Rightarrow> lua_State \<Rightarrow> SGLD" where
  "SGLD_create lab L = \<lparr>label = lab, L_set = True, top = lua_gettop L\<rparr>"

section \<open>The prelude loader\<close>

text \<open>
  \<^verbatim>\<open>Surge::LuaSupport::loadSurgePrelude\<close>. The text of the prelude
  (\<^verbatim>\<open>LuaSources::surge_prelude\<close>) is defined outside the source file and is a parameter. The
  guard is built first and destroyed when the function returns; the two status values are
  stored and never read.
\<close>

definition loadSurgePrelude ::
  "engine \<Rightarrow> string \<Rightarrow> lua_State \<Rightarrow> string list \<Rightarrow> (bool \<times> lua_State \<times> string list) option" where
  "loadSurgePrelude E surge_prelude s out =
     do {
       let guard = SGLD_create ''loadPrologue'' s;
       let lua_script = surge_prelude;
       let lua_size = length lua_script;
       (load_stat, s) \<leftarrow> luaL_loadbuffer E lua_script lua_size (c_str lua_script) s;
       (pcall, s) \<leftarrow> lua_pcall E 0 1 s;
       s \<leftarrow> lua_setglobal ''surge'' s;
       let (s, out) = SGLD_destroy guard s out;
       Some (True, s, out)
     }"

section \<open>Notions used in the statements\<close>

text \<open>
  The allocator of a well-formed engine state hands out unused references: nothing lives at or
  above \<open>next_ref\<close>.
\<close>

definition fresh :: "lua_State \<Rightarrow> bool" where
  "fresh L = (\<forall>r. next_ref L \<le> r \<longrightarrow> tables L r = None \<and> closures L r = None)"


text \<open>
  The table that the builder has assembled before it copies the entries of the math table:
  the seven assignments, in the order of the source, for the globals \<open>G\<close> and the new
  references \<open>r + 1\<close>, \<open>r + 2\<close>, \<open>r + 3\<close> of the three C closures.
\<close>

definition whitelist_env :: "table \<Rightarrow> nat \<Rightarrow> table" where
  "whitelist_env G r =
     rawset (rawset (rawset (rawset (rawset (rawset (rawset []
       (String ''math'') (rawget G (String ''math'')))
       (String ''surge'') (rawget G (String ''surge'')))
       (String ''ipairs'') (rawget G (String ''ipairs'')))
       (String ''error'') (rawget G (String ''error'')))
       (String ''limit_range'') (Function (Suc r)))
       (String ''clamp'') (Function (Suc (Suc r))))
       (String ''fft_forward'') (Function (Suc (Suc (Suc r))))"

definition assign_all :: "table \<Rightarrow> table \<Rightarrow> table" where
  "assign_all kvs e = fold (\<lambda>kv t. rawset t (fst kv) (snd kv)) kvs e"


text \<open>
  A small engine state for concrete runs: one scripted function on the stack, a math table with
  two entries, the global \<open>f\<close> holding a string and the global \<open>secret\<close> a number.
\<close>

definition demo_math :: table where
  "demo_math = [(String ''pi'', Number 3), (String ''abs'', Function 2)]"

definition demo_state :: lua_State where
  "demo_state =
     \<lparr>stack = [Function 0],
      globals = [(String ''math'', Table 1), (String ''f'', String ''x''),
                 (String ''secret'', Number 42)],
      tables = (\<lambda>r. if r = 1 then Some demo_math else None),
      closures = (\<lambda>r. if r = 0 then Some (Scripted 0, Globals)
                        else if r = 2 then Some (Scripted 1, Globals) else None),
      next_ref = 3\<rparr>"

text \<open>
  An engine for concrete runs: every text compiles unless it is \<open>''(''\<close>, and a call leaves
  the state as it is and returns nothing.
\<close>

definition demo_engine :: engine where
  "demo_engine =
     \<lparr>parse = (\<lambda>text name. if text = ''('' then LoadFailed SyntaxFailure ''unexpected symbol''
                             else Compiled),
      run = (\<lambda>f args L. Finished [] L),
      number2str = (\<lambda>x. ''0''),
      str2number = (\<lambda>s. None)\<rparr>"


text \<open>The state that wrapping the function of \<open>demo_state\<close> gives.\<close>

definition demo_wrapped :: lua_State where
  "demo_wrapped =
     \<lparr>stack = [Function 0],
      globals = [(String ''math'', Table 1), (String ''f'', String ''x''),
                 (String ''secret'', Number 42)],
      tables = (\<lambda>r. if r = 1 then Some demo_math
                      else if r = 3 then
                        Some [(String ''math'', Table 1), (String ''limit_range'', Function 4),
                              (String ''clamp'', Function 5), (String ''fft_forward'', Function 6),
                              (String ''pi'', Number 3), (String ''abs'', Function 2)]
                      else None),
      closures = (\<lambda>r. if r = 0 then Some (Scripted 0, EnvTable 3)
                        else if r = 2 then Some (Scripted 1, Globals)
                        else if r = 4 \<or> r = 5 then Some (CFunction lua_limitRange_fn, Globals)
                        else if r = 6 then Some (CFunction lua_FFTForward_fn, Globals)
                        else None),
      next_ref = 7\<rparr>"


text \<open>
  What the extraction loop of the loader leaves on the stack for a requested name, given the
  table of globals: the global itself if it is a function, nil otherwise.
\<close>

definition is_callable :: "tvalue \<Rightarrow> bool" where
  "is_callable v = (type_of_value v = LUA_TFUNCTION)"

definition global_of :: "table \<Rightarrow> string \<Rightarrow> tvalue" where
  "global_of G name = rawget G (String (c_str name))"

definition extracted :: "table \<Rightarrow> string \<Rightarrow> tvalue" where
  "extracted G name = (if is_callable (global_of G name) then global_of G name else Nil)"

text \<open>
  The state in which the virtual machine starts the chunk compiled from \<open>text\<close>: the chunk
  is a new closure and has been popped for the call.
\<close>

definition chunk_loaded :: "string \<Rightarrow> lua_State \<Rightarrow> lua_State" where
  "chunk_loaded text L =
     L\<lparr>closures := (closures L)(next_ref L \<mapsto> (Chunk text, Globals)),
       next_ref := Suc (next_ref L)\<rparr>"

text \<open>
  The state after the loader has run the script \<open>''return''\<close> on \<open>demo_state\<close> with
  \<open>demo_engine\<close> and the single requested name \<open>f\<close>.
\<close>

definition demo_extracted :: lua_State where
  "demo_extracted =
     \<lparr>stack = [Nil, Function 0],
      globals = [(String ''math'', Table 1), (String ''f'', String ''x''),
                 (String ''secret'', Number 42)],
      tables = (\<lambda>r. if r = 1 then Some demo_math else None),
      closures = (\<lambda>r. if r = 0 then Some (Scripted 0, Globals)
                        else if r = 2 then Some (Scripted 1, Globals)
                        else if r = 3 then Some (Chunk ''return'', Globals) else None),
      next_ref = 4\<rparr>"

text \<open>
  What the protected call in the prelude loader leaves on top of the stack: after a failed
  compilation the loader still calls, and the value called is the message, so the engine
  reports that a string cannot be called; after a successful one it is the first value the
  chunk returns (nil if it returns none) or the error object the chunk raises.
\<close>

definition prelude_result :: "engine \<Rightarrow> string \<Rightarrow> lua_State \<Rightarrow> tvalue" where
  "prelude_result E surge_prelude s =
     (case parse E surge_prelude (c_str surge_prelude) of
        LoadFailed e msg \<Rightarrow> String ''attempt to call a string value''
      | Compiled \<Rightarrow>
          (case run E (next_ref s) [] (chunk_loaded surge_prelude s) of
             Finished rs L1 \<Rightarrow> hd (rs @ [Nil])
           | Errored e v L1 \<Rightarrow> v))"

text \<open>The state after the prelude loader has run on \<open>demo_state\<close> with a prelude that does not compile.\<close>

definition demo_prelude_failed :: lua_State where
  "demo_prelude_failed =
     \<lparr>stack = [Function 0],
      globals = [(String ''math'', Table 1), (String ''f'', String ''x''),
                 (String ''secret'', Number 42),
                 (String ''surge'', String ''attempt to call a string value'')],
      tables = (\<lambda>r. if r = 1 then Some demo_math else None),
      closures = (\<lambda>r. if r = 0 then Some (Scripted 0, Globals)
                        else if r = 2 then Some (Scripted 1, Globals) else None),
      next_ref = 3\<rparr>"

text \<open>
  Engine states whose stack holds one table: a sequence of eight zeros, a sequence of seven
  zeros, and an empty table. \<open>demo_transform\<close> stands for a transform.
\<close>

definition zeros :: "nat \<Rightarrow> table" where
  "zeros n = map (\<lambda>i. (Number (real (Suc i)), Number 0)) [0..<n]"

definition fft_state :: "table \<Rightarrow> lua_State" where
  "fft_state t =
     \<lparr>stack = [Table 0], globals = [], tables = (\<lambda>r. if r = 0 then Some t else None),
      closures = (\<lambda>r. None), next_ref = 1\<rparr>"

definition demo_transform :: "int \<Rightarrow> real list \<Rightarrow> real list" where
  "demo_transform N xs = xs"






text \<open>Reading a decimal numeral back, to show that the printed depths determine the depths.\<close>

definition read_nat :: "string \<Rightarrow> nat" where
  "read_nat s = foldl (\<lambda>a c. 10 * a + (of_char c - 48)) 0 s"

section \<open>Facts about the engine calls\<close>

lemma index2adr_simps:
  "index2adr (-1) (a # st) = Some a"
  "index2adr (-2) (a # b # st) = Some b"
  "index2adr (-3) (a # b # c # st) = Some c"
  "index2adr (-6) (a # b # c # d # e # f # st) = Some f"
  by (simp_all add: index2adr_def)

lemma next_entry_Nil: "next_entry t Nil = Some (case t of [] \<Rightarrow> None | e # _ \<Rightarrow> Some e)"
  by (simp add: next_entry_def)

lemma next_entry_mid:
  assumes "distinct (map fst (pre @ (k, v) # post))" "k \<noteq> Nil"
  shows "next_entry (pre @ (k, v) # post) k = Some (case post of [] \<Rightarrow> None | e # _ \<Rightarrow> Some e)"
proof -
  have "\<And>x. x \<in> set pre \<Longrightarrow> fst x \<noteq> k" using assms(1) by auto
  then have "dropWhile (\<lambda>e. fst e \<noteq> k) (pre @ (k, v) # post) = (k, v) # post"
    by (simp add: dropWhile_append2)
  then show ?thesis using assms(2) by (simp add: next_entry_def split: list.splits)
qed

lemma math_loop_closed:
  assumes "stack L = k # Table m # Table t # rest"
    and "tables L m = Some mt" and "tables L t = Some e" and "m \<noteq> t"
    and "distinct (map fst mt)" and "Nil \<notin> fst ` set mt"
    and "(k = Nil \<and> post = mt) \<or> (k \<noteq> Nil \<and> (\<exists>pre v. mt = pre @ (k, v) # post))"
  shows "math_loop L =
           Some (L\<lparr>stack := Table m # Table t # rest,
                   tables := (tables L)(t \<mapsto> assign_all post e)\<rparr>)"
  using assms
proof (induction post arbitrary: L k e)
  case Nil
  have "next_entry mt k = Some None"
    using Nil.prems(5,7) by (auto simp: next_entry_Nil next_entry_mid)
  moreover have "(tables L)(t \<mapsto> e) = tables L"
    using Nil.prems(3) by (simp add: map_upd_triv)
  ultimately show ?case using Nil.prems(1-3)
    by (subst math_loop.simps) (simp add: lua_next_def index2adr_simps assign_all_def)
next
  case (Cons kv post)
  obtain k' v' where kv: "kv = (k', v')" by (cases kv)
  have ne: "next_entry mt k = Some (Some (k', v'))"
    using Cons.prems(5,7) kv by (auto simp: next_entry_Nil next_entry_mid)
  have k'_in: "(k', v') \<in> set mt" using Cons.prems(7) kv by auto
  then have k'_nn: "k' \<noteq> Nil" using Cons.prems(6) by force
  let ?L1 = "L\<lparr>stack := k' # Table m # Table t # rest,
               tables := (tables L)(t \<mapsto> rawset e k' v')\<rparr>"
  have pos: "(k' = Nil \<and> post = mt) \<or> (k' \<noteq> Nil \<and> (\<exists>pre v. mt = pre @ (k', v) # post))"
  proof -
    from Cons.prems(7) kv consider "k = Nil" "mt = (k', v') # post"
      | pre v where "mt = pre @ (k, v) # (k', v') # post" by auto
    then show ?thesis
    proof cases
      case 1
      then have "mt = [] @ (k', v') # post" by simp
      then show ?thesis using k'_nn by blast
    next
      case 2
      then have "mt = (pre @ [(k, v)]) @ (k', v') # post" by simp
      then show ?thesis using k'_nn by blast
    qed
  qed
  have IH: "math_loop ?L1 =
     Some (?L1\<lparr>stack := Table m # Table t # rest,
               tables := (tables ?L1)(t \<mapsto> assign_all post (rawset e k' v'))\<rparr>)"
    by (rule Cons.IH) (use Cons.prems pos in simp_all)
  show ?case
    apply (subst math_loop.simps)
    using Cons.prems(1-4) ne k'_nn IH
    apply (cases L)
    apply (simp add: lua_next_def index2adr_simps lua_pushvalue_def lua_settable_def lua_pop_def
        assign_all_def kv)
    done
qed


lemmas api_defs = lua_createtable_def lua_pushstring_def lua_getglobal_def lua_settable_def
  lua_pushcfunction_def lua_pushnil_def lua_pop_def lua_setfenv_def lua_isfunction_def
  index2adr_simps functionWhitelist_def

lemma setSurgeFunctionEnvironment_closed:
  assumes "stack L = Function f # rest"
    and "closures L f = Some (c, e0)"
    and "rawget (globals L) (String ''math'') = Table m"
    and "tables L m = Some mt"
    and "distinct (map fst mt)" and "Nil \<notin> fst ` set mt"
    and "fresh L"
  shows "setSurgeFunctionEnvironment L =
           Some (True, L\<lparr>
             tables := (tables L)(next_ref L \<mapsto> assign_all mt (whitelist_env (globals L) (next_ref L))),
             closures := (closures L)(
               Suc (next_ref L) \<mapsto> (CFunction lua_limitRange_fn, Globals),
               Suc (Suc (next_ref L)) \<mapsto> (CFunction lua_limitRange_fn, Globals),
               Suc (Suc (Suc (next_ref L))) \<mapsto> (CFunction lua_FFTForward_fn, Globals),
               f \<mapsto> (c, EnvTable (next_ref L))),
             next_ref := Suc (Suc (Suc (Suc (next_ref L))))\<rparr>)"
proof -
  let ?r = "next_ref L"
  have m_ne: "m \<noteq> ?r" using assms(4,7) by (auto simp: fresh_def)
  have f_lt: "f < ?r" using assms(2,7) by (force simp: fresh_def not_le[symmetric])
  let ?L1 = "L\<lparr>stack := Nil # Table m # Table ?r # Function f # rest,
     tables := (tables L)(?r \<mapsto> whitelist_env (globals L) ?r),
     closures := (closures L)(
               Suc ?r \<mapsto> (CFunction lua_limitRange_fn, Globals),
               Suc (Suc ?r) \<mapsto> (CFunction lua_limitRange_fn, Globals),
               Suc (Suc (Suc ?r)) \<mapsto> (CFunction lua_FFTForward_fn, Globals)),
     next_ref := Suc (Suc (Suc (Suc ?r)))\<rparr>"
  have loop: "math_loop ?L1 = Some (?L1\<lparr>stack := Table m # Table ?r # Function f # rest,
        tables := (tables ?L1)(?r \<mapsto> assign_all mt (whitelist_env (globals L) ?r))\<rparr>)"
    by (rule math_loop_closed[where mt = mt and k = Nil]) (use assms m_ne in simp_all)
  have pre: "setSurgeFunctionEnvironment L =
     do { L \<leftarrow> math_loop ?L1; L \<leftarrow> lua_pop 1 L; (res, L) \<leftarrow> lua_setfenv (-2) L; Some (True, L) }"
    unfolding setSurgeFunctionEnvironment_def
    using assms(1,3)
    apply (cases L)
    apply (simp add: api_defs whitelist_env_def)
    done
  show ?thesis
    unfolding pre loop
    using assms(1,2) f_lt
    apply (cases L)
    apply (simp add: api_defs)
    done
qed

lemma rawget_rawset: "rawget (rawset t k v) k' = (if k' = k then v else rawget t k')"
  by (simp add: rawget_def rawset_def update_conv' delete_conv')





lemma math_loop_stack:
  assumes "math_loop L0 = Some L0'"
  shows "\<forall>k rest. stack L0 = k # rest \<longrightarrow> stack L0' = rest"
proof (rule math_loop.raw_induct
    [where P = "\<lambda>L L'. \<forall>k rest. stack L = k # rest \<longrightarrow> stack L' = rest", OF _ assms])
  fix ml :: "lua_State \<Rightarrow> lua_State option" and L L'
  assume IH: "\<And>x y. ml x = Some y \<Longrightarrow> \<forall>k rest. stack x = k # rest \<longrightarrow> stack y = rest"
    and step: "lua_next (- 2) L \<bind>
     (\<lambda>(more, L).
         if more
         then lua_pushvalue (- 2) L \<bind>
              (\<lambda>L. lua_pushvalue (- 2) L \<bind>
                   (\<lambda>L. lua_settable (- 6) L \<bind>
                        (\<lambda>L. lua_pop 1 L \<bind> ml)))
         else Some L) = Some L'"
  show "\<forall>k rest. stack L = k # rest \<longrightarrow> stack L' = rest"
  proof (intro allI impI)
    fix k rest assume st: "stack L = k # rest"
    from step obtain more L1 where n: "lua_next (-2) L = Some (more, L1)"
      and body: "(if more then lua_pushvalue (- 2) L1 \<bind>
              (\<lambda>L. lua_pushvalue (- 2) L \<bind>
                   (\<lambda>L. lua_settable (- 6) L \<bind>
                        (\<lambda>L. lua_pop 1 L \<bind> ml))) else Some L1) = Some L'"
      by (auto simp: bind_eq_Some_conv)
    show "stack L' = rest"
    proof (cases more)
      case False
      then have "L' = L1" using body by simp
      moreover have "stack L1 = rest" using n st False
        by (auto simp: lua_next_def split: option.splits tvalue.splits list.splits)
      ultimately show ?thesis by simp
    next
      case True
      then obtain k' v' where s1: "stack L1 = v' # k' # rest" using n st
        by (auto simp: lua_next_def split: option.splits tvalue.splits list.splits)
      from body True obtain L5 where l5: "ml L5 = Some L'" and s5: "stack L5 = k' # rest"
        using s1
        by (auto simp: bind_eq_Some_conv lua_pushvalue_def lua_settable_def lua_pop_def index2adr_def
            split: option.splits tvalue.splits list.splits if_splits)
      from IH[OF l5] s5 show ?thesis by simp
    qed
  qed
qed

lemma whitelist_loop_stack:
  "whitelist_loop fs L = Some L' \<Longrightarrow> stack L' = stack L"
proof (induction fs arbitrary: L)
  case Nil
  then show ?case by simp
next
  case (Cons f fs)
  from Cons.prems obtain L3 where "whitelist_loop fs L3 = Some L'" and "stack L3 = stack L"
    by (auto simp: bind_eq_Some_conv lua_pushstring_def lua_getglobal_def lua_settable_def
        split: option.splits tvalue.splits list.splits if_splits prod.splits)
  then show ?case using Cons.IH by simp
qed

lemma math_loop_tl:
  assumes "math_loop L = Some L'"
  shows "stack L' = tl (stack L)"
proof (cases "stack L")
  case Nil
  then have "lua_next (-2) L = None"
    by (simp add: lua_next_def split: option.splits tvalue.splits)
  then have "math_loop L = None" by (subst math_loop.simps) simp
  then show ?thesis using assms by simp
next
  case (Cons k rest)
  then show ?thesis using math_loop_stack[OF assms] by simp
qed

lemma push_stack:
  "lua_pushstring s L = Some L' \<Longrightarrow> stack L' = String s # stack L"
  "lua_getglobal n L = Some L' \<Longrightarrow> stack L' = rawget (globals L) (String n) # stack L"
  "lua_pushnil L = Some L' \<Longrightarrow> stack L' = Nil # stack L"
  "lua_createtable a b L = Some L' \<Longrightarrow> stack L' = Table (next_ref L) # stack L"
  "lua_pushcfunction c L = Some L' \<Longrightarrow> stack L' = Function (next_ref L) # stack L"
  by (auto simp: lua_pushstring_def lua_getglobal_def lua_pushnil_def lua_createtable_def
      lua_pushcfunction_def)

lemma pop_stack:
  "lua_settable idx L = Some L' \<Longrightarrow> stack L' = drop 2 (stack L)"
  "lua_pop n L = Some L' \<Longrightarrow> stack L' = drop n (stack L)"
  "lua_setfenv idx L = Some (res, L') \<Longrightarrow> stack L' = drop 1 (stack L)"
  by (auto simp: lua_settable_def lua_pop_def lua_setfenv_def
      split: option.splits tvalue.splits list.splits if_splits)

lemma setSurgeFunctionEnvironment_stack:
  assumes "setSurgeFunctionEnvironment L = Some (b, L')"
  shows "stack L' = stack L"
proof (cases "lua_isfunction (-1) L")
  case False
  then show ?thesis using assms by (simp add: setSurgeFunctionEnvironment_def)
next
  case True
  then show ?thesis using assms
    by (auto simp: setSurgeFunctionEnvironment_def bind_eq_Some_conv
        dest!: push_stack pop_stack math_loop_tl whitelist_loop_stack)
qed

lemma demo_fresh: "fresh demo_state"
  by (simp add: fresh_def demo_state_def)

lemma demo_wrap: "setSurgeFunctionEnvironment demo_state = Some (True, demo_wrapped)"
proof -
  have "setSurgeFunctionEnvironment demo_state = Some (True, demo_state\<lparr>
             tables := (tables demo_state)(next_ref demo_state \<mapsto>
                assign_all demo_math (whitelist_env (globals demo_state) (next_ref demo_state))),
             closures := (closures demo_state)(
               Suc (next_ref demo_state) \<mapsto> (CFunction lua_limitRange_fn, Globals),
               Suc (Suc (next_ref demo_state)) \<mapsto> (CFunction lua_limitRange_fn, Globals),
               Suc (Suc (Suc (next_ref demo_state))) \<mapsto> (CFunction lua_FFTForward_fn, Globals),
               0 \<mapsto> (Scripted 0, EnvTable (next_ref demo_state))),
             next_ref := Suc (Suc (Suc (Suc (next_ref demo_state))))\<rparr>)"
    by (rule setSurgeFunctionEnvironment_closed[where rest = "[]" and m = 1 and ?e0.0 = Globals])
       (simp_all add: demo_fresh, simp_all add: demo_state_def demo_math_def rawget_def)
  also have "\<dots> = Some (True, demo_wrapped)"
    by (auto simp: demo_state_def demo_wrapped_def demo_math_def whitelist_env_def assign_all_def
        rawset_def rawget_def fun_eq_iff)
  finally show ?thesis .
qed


lemma c_str_idem: "c_str (c_str s) = c_str s"
  by (simp add: c_str_def)

lemma take_strlen_c_str: "take (strlen (c_str s)) (c_str s) = c_str s"
  by (simp add: strlen_def c_str_idem)

lemma push_nils_closed:
  "push_nils fs L = Some (L\<lparr>stack := replicate (length fs) Nil @ stack L\<rparr>)"
proof (induction fs arbitrary: L)
  case Nil
  then show ?case by simp
next
  case (Cons f fs)
  show ?case
    by (simp add: lua_pushnil_def Cons.IH replicate_app_Cons_same)
qed

lemma type_nil_iff: "type_of_value v = LUA_TNIL \<longleftrightarrow> v = Nil"
  by (cases v) simp_all

lemma extract_loop_closed:
  "extract_loop fs res L =
     Some (res + int (length (filter (\<lambda>n. is_callable (global_of (globals L) n)) fs)),
           L\<lparr>stack := rev (map (extracted (globals L)) fs) @ stack L\<rparr>)"
proof (induction fs arbitrary: res L)
  case Nil
  then show ?case by simp
next
  case (Cons f fs)
  let ?v = "global_of (globals L) f"
  show ?case
  proof (cases "is_callable ?v")
    case True
    then show ?thesis
      by (simp add: lua_getglobal_def lua_isfunction_def index2adr_simps Cons.IH
          is_callable_def extracted_def global_of_def)
  next
    case False
    then show ?thesis
      by (cases "?v = Nil")
         (simp_all add: lua_getglobal_def lua_isfunction_def lua_isnil_def index2adr_simps Cons.IH
          is_callable_def extracted_def global_of_def lua_pop_def lua_pushnil_def type_nil_iff)
  qed
qed

lemma parse_syntax_error:
  assumes "parse E (c_str definition) ''lua-script'' = LoadFailed SyntaxFailure msg"
  shows "parseStringDefiningMultipleFunctions E L definition functions errorMessage =
           Some (0, L\<lparr>stack := replicate (length functions) Nil @ stack L\<rparr>,
                 ''Lua Syntax Error: '' @ c_str msg)"
  using assms
  by (cases L)
     (simp add: parseStringDefiningMultipleFunctions_def luaL_loadbuffer_def take_strlen_c_str
      lua_tostring_def index2adr_simps lua_pop_def push_nils_closed)

lemma parse_success:
  assumes "parse E (c_str definition) ''lua-script'' = Compiled"
    and "run E (next_ref L) [] (chunk_loaded (c_str definition) L) = Finished rs L1"
  shows "parseStringDefiningMultipleFunctions E L definition functions errorMessage =
           Some (int (length (filter (\<lambda>n. is_callable (global_of (globals L1) n)) functions)),
                 L1\<lparr>stack := map (extracted (globals L1)) functions @ stack L\<rparr>,
                 errorMessage)"
proof -
  have ld: "luaL_loadbuffer E (c_str definition) (strlen (c_str definition)) ''lua-script'' L =
          Some (LUA_OK, (chunk_loaded (c_str definition) L)\<lparr>stack := Function (next_ref L) # stack L\<rparr>)"
    using assms(1) by (cases L) (simp add: luaL_loadbuffer_def take_strlen_c_str chunk_loaded_def)
  have pc: "lua_pcall E 0 0 ((chunk_loaded (c_str definition) L)\<lparr>stack := Function (next_ref L) # stack L\<rparr>)
     = Some (LUA_OK, L1\<lparr>stack := stack L\<rparr>)"
  proof -
    have "(chunk_loaded (c_str definition) L)\<lparr>stack := stack L\<rparr> = chunk_loaded (c_str definition) L"
      by (cases L) (simp add: chunk_loaded_def)
    then show ?thesis using assms(2) by (simp add: lua_pcall_def Let_def)
  qed
  show ?thesis
    by (simp add: parseStringDefiningMultipleFunctions_def ld pc extract_loop_closed rev_map
        rev_filter[symmetric])
qed


lemma demo_chunk_loaded: "chunk_loaded ''return'' demo_state\<lparr>stack := [Nil, Function 0]\<rparr> = demo_extracted"
  by (auto simp: chunk_loaded_def demo_state_def demo_extracted_def fun_eq_iff)

lemma c_str_demo: "c_str ''return'' = ''return''" "c_str ''f'' = ''f''" "c_str ''g'' = ''g''"
  "c_str ''('' = ''(''" "c_str ''unexpected symbol'' = ''unexpected symbol''"
  by (simp_all add: c_str_def)

lemma chunk_loaded_stack:
  "(chunk_loaded t s)\<lparr>stack := stack s\<rparr> = chunk_loaded t s"
  by (cases s) (simp add: chunk_loaded_def)

lemma load_then_call:
  "\<exists>load_stat s1 pcall s2.
     luaL_loadbuffer E surge_prelude (length surge_prelude) (c_str surge_prelude) s
       = Some (load_stat, s1)
     \<and> lua_pcall E 0 1 s1 = Some (pcall, s2)
     \<and> stack s2 = prelude_result E surge_prelude s # stack s"
proof (cases "parse E surge_prelude (c_str surge_prelude)")
  case Compiled
  then have ld: "luaL_loadbuffer E surge_prelude (length surge_prelude) (c_str surge_prelude) s
       = Some (LUA_OK, (chunk_loaded surge_prelude s)\<lparr>stack := Function (next_ref s) # stack s\<rparr>)"
    by (cases s) (simp add: luaL_loadbuffer_def chunk_loaded_def)
  show ?thesis
  proof (cases "run E (next_ref s) [] (chunk_loaded surge_prelude s)")
    case (Finished rs L1)
    have "take (Suc 0) (rs @ [Nil]) = [hd (rs @ [Nil])]" by (cases rs) simp_all
    then show ?thesis using ld Compiled Finished
      by (simp add: lua_pcall_def Let_def chunk_loaded_stack prelude_result_def)
  next
    case (Errored e v L1)
    then show ?thesis using ld Compiled
      by (simp add: lua_pcall_def Let_def chunk_loaded_stack prelude_result_def)
  qed
next
  case (LoadFailed e msg)
  then show ?thesis
    by (simp add: luaL_loadbuffer_def lua_pcall_def Let_def prelude_result_def)
qed

lemma loadSurgePrelude_closed:
  "\<exists>load_stat s1 pcall s2.
     luaL_loadbuffer E surge_prelude (length surge_prelude) (c_str surge_prelude) s
       = Some (load_stat, s1)
     \<and> lua_pcall E 0 1 s1 = Some (pcall, s2)
     \<and> stack s2 = prelude_result E surge_prelude s # stack s
     \<and> loadSurgePrelude E surge_prelude s out =
         Some (True,
               s2\<lparr>stack := stack s,
                  globals := rawset (globals s2) (String ''surge'') (prelude_result E surge_prelude s)\<rparr>,
               out)"
proof -
  from load_then_call[of E surge_prelude s] obtain load_stat s1 pcall s2 where
    a: "luaL_loadbuffer E surge_prelude (length surge_prelude) (c_str surge_prelude) s
       = Some (load_stat, s1)"
    and b: "lua_pcall E 0 1 s1 = Some (pcall, s2)"
    and c: "stack s2 = prelude_result E surge_prelude s # stack s"
    by blast
  have "loadSurgePrelude E surge_prelude s out =
         Some (True,
               s2\<lparr>stack := stack s,
                  globals := rawset (globals s2) (String ''surge'') (prelude_result E surge_prelude s)\<rparr>,
               out)"
    using a b c
    by (simp add: loadSurgePrelude_def lua_setglobal_def SGLD_create_def SGLD_destroy_def
        lua_gettop_def Let_def)
  then show ?thesis using a b c by blast
qed

lemma and_pred_double:
  fixes y :: nat
  assumes "0 < y"
  shows "(2 * y) AND (2 * y - 1) = 2 * (y AND (y - 1))"
proof -
  have eq: "2 * y - 1 = Suc (2 * (y - 1))" using assms by simp
  have "(2 * y) AND Suc (2 * (y - 1)) =
      of_bool (odd (2 * y) \<and> odd (Suc (2 * (y - 1))))
        + 2 * (((2 * y) div 2) AND (Suc (2 * (y - 1)) div 2))"
    by (rule and_nat_rec)
  then show ?thesis unfolding eq by simp
qed

lemma and_pred_odd:
  fixes y :: nat
  shows "(2 * y + 1) AND (2 * y + 1 - 1) = 2 * y"
proof -
  have "Suc (2 * y) AND (2 * y) =
      of_bool (odd (Suc (2 * y)) \<and> odd (2 * y)) + 2 * ((Suc (2 * y) div 2) AND ((2 * y) div 2))"
    by (rule and_nat_rec)
  then show ?thesis by simp
qed

lemma nat_pow2_iff:
  fixes n :: nat
  shows "0 < n \<Longrightarrow> (n AND (n - 1) = 0) \<longleftrightarrow> (\<exists>k. n = 2 ^ k)"
proof (induction n rule: less_induct)
  case (less n)
  show ?case
  proof (cases "even n")
    case True
    then obtain y where y: "n = 2 * y" by (auto elim: evenE)
    then have ypos: "0 < y" and ylt: "y < n" using less.prems by simp_all
    have "(n AND (n - 1) = 0) \<longleftrightarrow> (y AND (y - 1) = 0)"
      using and_pred_double[OF ypos] y by simp
    also have "\<dots> \<longleftrightarrow> (\<exists>k. y = 2 ^ k)" by (rule less.IH[OF ylt ypos])
    also have "\<dots> \<longleftrightarrow> (\<exists>k. n = 2 ^ k)"
    proof
      assume "\<exists>k. y = 2 ^ k"
      then obtain k where "y = 2 ^ k" ..
      then have "n = 2 ^ Suc k" using y by simp
      then show "\<exists>k. n = 2 ^ k" ..
    next
      assume "\<exists>k. n = 2 ^ k"
      then obtain k where k: "n = 2 ^ k" ..
      show "\<exists>k. y = 2 ^ k"
      proof (cases k)
        case 0
        then show ?thesis using k True by simp
      next
        case (Suc j)
        then have "y = 2 ^ j" using k y by simp
        then show ?thesis ..
      qed
    qed
    finally show ?thesis .
  next
    case False
    then obtain y where y: "n = 2 * y + 1" by (auto elim: oddE)
    have "(n AND (n - 1) = 0) \<longleftrightarrow> y = 0"
      using and_pred_odd[of y] y by simp
    also have "\<dots> \<longleftrightarrow> (\<exists>k. n = 2 ^ k)"
    proof
      assume "y = 0"
      then have "n = 2 ^ 0" using y by simp
      then show "\<exists>k. n = 2 ^ k" ..
    next
      assume "\<exists>k. n = 2 ^ k"
      then obtain k where k: "n = 2 ^ k" ..
      show "y = 0"
      proof (cases k)
        case 0
        then show ?thesis using k y by simp
      next
        case (Suc j)
        then have "even n" using k by simp
        then show ?thesis using False by simp
      qed
    qed
    finally show ?thesis .
  qed
qed

lemma IsPowerOfTwo_iff: "IsPowerOfTwo x \<longleftrightarrow> (\<exists>k. unat x = 2 ^ k)"
proof (cases "x = 0")
  case True
  then show ?thesis by (simp add: IsPowerOfTwo_def)
next
  case False
  then have pos: "0 < unat x" by (simp add: unat_gt_0)
  have "x AND (x - 1) = 0 \<longleftrightarrow> unat (x AND (x - 1)) = 0"
    by (simp add: unsigned_eq_0_iff)
  also have "unat (x AND (x - 1)) = unat x AND (unat x - 1)"
    using False by (simp add: unsigned_and_eq unat_minus_one)
  finally have "x AND (x - 1) = 0 \<longleftrightarrow> (\<exists>k. unat x = 2 ^ k)"
    using nat_pow2_iff[OF pos] by simp
  then show ?thesis using False by (simp add: IsPowerOfTwo_def)
qed


lemma find_upt_first:
  assumes "P n" and "n \<le> m" and "\<And>j. j < n \<Longrightarrow> \<not> P j"
  shows "find P [0..<Suc m] = Some n"
proof -
  have "n < length [0..<Suc m]" using assms(2) by simp
  moreover have "[0..<Suc m] ! n = n" using assms(2) by (simp add: nth_append del: upt_Suc)
  moreover have "\<forall>j<n. \<not> P ([0..<Suc m] ! j)"
    using assms(2,3) by (simp add: nth_append del: upt_Suc)
  ultimately show ?thesis using assms(1) unfolding find_Some_iff by metis
qed

lemma find_upt_bound:
  assumes "find P [0..<Suc m] = Some n"
  shows "n \<le> m"
proof -
  from assms obtain i where "i < length [0..<Suc m]" and "n = [0..<Suc m] ! i"
    unfolding find_Some_iff by blast
  then show ?thesis by (simp add: nth_append del: upt_Suc)
qed

lemma objlen_le: "objlen t \<le> length t"
proof (cases "find (\<lambda>n. map_of t (Number (real (Suc n))) = None) [0..<Suc (length t)]")
  case None
  then show ?thesis by (simp add: objlen_def)
next
  case (Some n)
  then have "n \<le> length t" by (rule find_upt_bound)
  then show ?thesis using Some by (simp add: objlen_def)
qed

lemma map_of_zeros:
  "map_of (zeros n) (Number (real (Suc i))) = (if i < n then Some (Number 0) else None)"
  by (induction n) (auto simp: zeros_def map_add_def split: option.splits)

lemma objlen_zeros: "objlen (zeros n) = n"
proof -
  have len: "length (zeros n) = n" by (simp add: zeros_def)
  have "find (\<lambda>i. map_of (zeros n) (Number (real (Suc i))) = None) [0..<Suc n] = Some n"
    by (rule find_upt_first) (simp_all add: map_of_zeros del: of_nat_Suc)
  then show ?thesis unfolding objlen_def len by simp
qed

lemma read_input_table:
  assumes "stack L = Table r # rest" and "tables L r = Some t"
  shows "read_input E i (Suc k) L inp = Raises (BadArgument (-2) ''number'' ''table'')"
  using assms by (simp add: lua_rawgeti_def index2adr_simps luaL_checknumber_def)

lemma lua_FFTForward_on_table:
  assumes "stack L = Table r # rest" and "tables L r = Some t" and "length t < 2 ^ 64"
  shows "lua_FFTForward E pffft_transform CH L =
           (if \<exists>k. objlen t = 2 ^ k
            then (Raises (BadArgument (-2) ''number'' ''table''),
                  snd (LRU_get (of_nat (objlen t)) CH))
            else (Raises (ErrorMessage ''FFT size must be a power of two.''), CH))"
proof -
  let ?n = "of_nat (objlen t) :: 64 word"
  have n: "lua_objlen (-1) L = ?n"
    using assms(1,2) by (simp add: lua_objlen_def index2adr_simps)
  have "objlen t < 2 ^ 64" using objlen_le[of t] assms(3) by simp
  then have un: "unat ?n = objlen t" by (simp add: unat_of_nat)
  have chk: "luaL_checktype (-1) LUA_TTABLE L = Returns ()"
    using assms(1) by (simp add: luaL_checktype_def index2adr_simps)
  have p2: "IsPowerOfTwo ?n \<longleftrightarrow> (\<exists>k. objlen t = 2 ^ k)"
    by (simp add: IsPowerOfTwo_iff un)
  show ?thesis
  proof (cases "\<exists>k. objlen t = 2 ^ k")
    case False
    then show ?thesis using chk n p2
      by (simp add: lua_FFTForward_def luaL_error_def)
  next
    case True
    then obtain k where "objlen t = 2 ^ k" ..
    then have "0 < objlen t" by simp
    then obtain j where j: "objlen t = Suc j" by (cases "objlen t") simp_all
    have unj: "unat ?n = Suc j" using un j by simp
    have "read_input E 0 (unat ?n) L [] = Raises (BadArgument (-2) ''number'' ''table'')"
      unfolding unj by (rule read_input_table[OF assms(1,2)])
    then show ?thesis using chk n p2 True
      by (simp add: lua_FFTForward_def Let_def split: prod.splits)
  qed
qed


lemma fft_state_table:
  "stack (fft_state t) = Table 0 # []" "tables (fft_state t) 0 = Some t"
  by (simp_all add: fft_state_def)

lemma length_zeros: "length (zeros n) = n"
  by (simp add: zeros_def)

lemma zeros_8:
  "zeros 8 = [(Number 1, Number 0), (Number 2, Number 0), (Number 3, Number 0),
              (Number 4, Number 0), (Number 5, Number 0), (Number 6, Number 0),
              (Number 7, Number 0), (Number 8, Number 0)]"
  by (simp add: zeros_def eval_nat_numeral)

lemma seven_no_power: "\<not> (\<exists>k. (7::nat) = 2 ^ k)"
proof -
  have "(7::nat) AND (7 - 1) \<noteq> 0" by simp
  then show ?thesis using nat_pow2_iff[of 7] by simp
qed




































lemma read_nat_snoc: "read_nat (s @ [c]) = 10 * read_nat s + (of_char c - 48)"
  by (simp add: read_nat_def)

lemma digit_value: "d < 10 \<Longrightarrow> (of_char (char_of (48 + d :: nat)) :: nat) - 48 = d"
  by simp

lemma read_show_nat_fuel: "n < f \<Longrightarrow> read_nat (show_nat_fuel f n) = n"
proof (induction f arbitrary: n)
  case 0
  then show ?case by simp
next
  case (Suc f)
  show ?case
  proof (cases "n < 10")
    case True
    then show ?thesis using read_nat_snoc[of "[]" "char_of (48 + n)"]
      by (simp add: read_nat_def)
  next
    case False
    then have "n div 10 < f" using Suc.prems by simp
    then have "read_nat (show_nat_fuel f (n div 10)) = n div 10" by (rule Suc.IH)
    moreover have "(of_char (char_of (48 + n mod 10 :: nat)) :: nat) - 48 = n mod 10"
      by (rule digit_value) simp
    ultimately show ?thesis using False by (simp add: read_nat_snoc)
  qed
qed

lemma read_show_nat: "read_nat (show_nat n) = n"
  unfolding show_nat_def by (rule read_show_nat_fuel) simp

lemma digit_not_minus: "d < 10 \<Longrightarrow> char_of (48 + d :: nat) \<noteq> CHR ''-''"
proof
  assume d: "d < 10" and "char_of (48 + d) = CHR ''-''"
  then have "(of_char (char_of (48 + d)) :: nat) = of_char CHR ''-''" by simp
  then show False using d by simp
qed

lemma show_nat_fuel_digits: "c \<in> set (show_nat_fuel f n) \<Longrightarrow> c \<noteq> CHR ''-''"
proof (induction f arbitrary: n)
  case 0
  then show ?case by simp
next
  case (Suc f)
  then show ?case
    using digit_not_minus[of n] digit_not_minus[of "n mod 10"]
    by (auto split: if_splits)
qed

lemma show_int_inj: "inj show_int"
proof (rule injI)
  fix i j :: int
  assume eq: "show_int i = show_int j"
  have no_minus: "CHR ''-'' # s \<noteq> show_nat m" for s m
  proof
    assume "CHR ''-'' # s = show_nat m"
    then have "CHR ''-'' \<in> set (show_nat_fuel (Suc m) m)" by (metis list.set_intros(1) show_nat_def)
    then show False using show_nat_fuel_digits by blast
  qed
  show "i = j"
  proof (cases "i < 0")
    case True
    show ?thesis
    proof (cases "j < 0")
      case jneg: True
      then have "show_nat (nat (- i)) = show_nat (nat (- j))" using eq True by (simp add: show_int_def)
      then have "nat (- i) = nat (- j)" by (metis read_show_nat)
      then show ?thesis using True jneg by simp
    next
      case False
      then show ?thesis using eq True no_minus by (simp add: show_int_def)
    qed
  next
    case False
    show ?thesis
    proof (cases "j < 0")
      case True
      then show ?thesis using eq False no_minus[of "show_nat (nat (- j))" "nat i"] by (simp add: show_int_def)
    next
      case jpos: False
      then have "show_nat (nat i) = show_nat (nat j)" using eq False by (simp add: show_int_def)
      then have "nat i = nat j" by (metis read_show_nat)
      then show ?thesis using False jpos by simp
    qed
  qed
qed

lemma show_int_small: "show_int 1 = ''1''" "show_int 2 = ''2''"
  by code_simp+

section \<open>Theorems\<close>

text \<open>
  C9. When the guard of a live engine is destroyed, the engine state, and so the operand stack,
  is returned as it was. Nothing is written if the depth of the stack is the depth recorded at
  construction; otherwise exactly one line is appended, made of the label and of the exit and
  entry depths in decimal, and different depths print differently. The same holds for a guard
  built by the constructor in a state \<open>L0\<close> and destroyed in a state \<open>L\<close>.
\<close>

theorem SGLD_destroy_diagnostic:
  "SGLD_destroy \<lparr>label = lab, L_set = True, top = t\<rparr> L out =
     (L, if lua_gettop L = t then out
         else out @ [''Guarded stack leak: ['' @ lab @ ''] exit='' @ show_int (lua_gettop L)
                       @ '' enter='' @ show_int t])
   \<and> SGLD_destroy (SGLD_create lab L0) L out =
     (L, if length (stack L) = length (stack L0) then out
         else out @ [''Guarded stack leak: ['' @ lab @ ''] exit='' @ show_int (lua_gettop L)
                       @ '' enter='' @ show_int (lua_gettop L0)])
   \<and> inj show_int"
  using show_int_inj by (simp add: SGLD_destroy_def SGLD_create_def lua_gettop_def Let_def)

text \<open>A run of C9: one more value on the stack is reported, an unchanged depth is not.\<close>

theorem SGLD_destroy_diagnostic_witness:
  "SGLD_destroy (SGLD_create ''loadPrologue'' demo_state) demo_extracted [] =
     (demo_extracted, [''Guarded stack leak: [loadPrologue] exit=2 enter=1''])
   \<and> SGLD_destroy (SGLD_create ''loadPrologue'' demo_state) demo_wrapped [] = (demo_wrapped, [])"
proof -
  have l: "length (stack demo_state) = 1" "length (stack demo_extracted) = 2"
    "length (stack demo_wrapped) = 1"
    by (simp_all add: demo_state_def demo_extracted_def demo_wrapped_def)
  have g: "lua_gettop demo_state = 1" "lua_gettop demo_extracted = 2"
    using l by (simp_all add: lua_gettop_def)
  from SGLD_destroy_diagnostic[of "''loadPrologue''" 1 demo_extracted "[]" demo_state]
    SGLD_destroy_diagnostic[of "''loadPrologue''" 1 demo_wrapped "[]" demo_state]
  show ?thesis by (simp add: l g show_int_small)
qed




text \<open>
  C4, as the code has it. When the builder returns true, the top of the stack was a function
  and the stack on exit is the stack on entry: the function stays on top, now bound to the new
  environment, and the depth is unchanged.
\<close>

theorem setSurgeFunctionEnvironment_keeps_stack:
  "setSurgeFunctionEnvironment L = Some (True, L') \<Longrightarrow>
     lua_isfunction (-1) L \<and> stack L' = stack L \<and> lua_gettop L' = lua_gettop L"
proof -
  assume a: "setSurgeFunctionEnvironment L = Some (True, L')"
  have "lua_isfunction (-1) L"
  proof (rule ccontr)
    assume "\<not> lua_isfunction (-1) L"
    then show False using a by (simp add: setSurgeFunctionEnvironment_def)
  qed
  moreover have "stack L' = stack L" by (rule setSurgeFunctionEnvironment_stack[OF a])
  ultimately show ?thesis by (simp add: lua_gettop_def)
qed

text \<open>The run on \<open>demo_state\<close> returns true and leaves the stack as it was.\<close>

theorem setSurgeFunctionEnvironment_keeps_stack_witness:
  "setSurgeFunctionEnvironment demo_state = Some (True, demo_wrapped)
   \<and> lua_isfunction (-1) demo_state \<and> stack demo_wrapped = stack demo_state
   \<and> lua_gettop demo_wrapped = lua_gettop demo_state"
  using setSurgeFunctionEnvironment_keeps_stack[OF demo_wrap] demo_wrap by simp

text \<open>
  C4 as stated fails: on \<open>demo_state\<close> the stack holds the function before and after the
  call, so the function reference has not been removed.
\<close>

theorem setSurgeFunctionEnvironment_consumes_counterexample:
  "setSurgeFunctionEnvironment demo_state = Some (True, demo_wrapped)
   \<and> stack demo_state = [Function 0] \<and> stack demo_wrapped = [Function 0]
   \<and> stack demo_wrapped \<noteq> tl (stack demo_state)"
  using demo_wrap by (simp add: demo_state_def demo_wrapped_def)

text \<open>
  C6. When the engine rejects the script text with a syntax error, the loader returns the
  count 0, sets the diagnostic to \<open>Lua Syntax Error: \<close> followed by the engine's message
  (as a C string), which is not empty, and leaves the engine state as it was except for one
  nil pushed for every requested name.
\<close>

theorem syntax_error_reported:
  assumes "parse E (c_str definition) ''lua-script'' = LoadFailed SyntaxFailure msg"
  shows "parseStringDefiningMultipleFunctions E L definition functions errorMessage =
           Some (0, L\<lparr>stack := replicate (length functions) Nil @ stack L\<rparr>,
                 ''Lua Syntax Error: '' @ c_str msg)
         \<and> ''Lua Syntax Error: '' @ c_str msg \<noteq> []"
  using parse_syntax_error[OF assms] by simp

text \<open>A run of C6: the text \<open>(\<close> does not compile, two names are requested.\<close>

theorem syntax_error_reported_witness:
  "parse demo_engine (c_str ''('') ''lua-script'' = LoadFailed SyntaxFailure ''unexpected symbol''
   \<and> parseStringDefiningMultipleFunctions demo_engine demo_state ''('' [''f'', ''g''] ''old'' =
       Some (0, demo_state\<lparr>stack := [Nil, Nil, Function 0]\<rparr>,
             ''Lua Syntax Error: unexpected symbol'')"
proof -
  have p: "parse demo_engine (c_str ''('') ''lua-script'' = LoadFailed SyntaxFailure ''unexpected symbol''"
    by (simp add: demo_engine_def c_str_demo)
  have st: "stack demo_state = [Function 0]" by (simp add: demo_state_def)
  from syntax_error_reported[OF p, of demo_state "[''f'', ''g'']" "''old''"] p st
  show ?thesis by (simp add: c_str_demo)
qed

text \<open>
  C3, as the code has it. Let the script compile and run without error, leaving the state
  \<open>L1\<close>, and let the \<open>i\<close>-th requested name be a global that is neither nil nor a
  function. Then the loader returns, the slot it leaves on the stack for that name is nil,
  the global itself keeps its value (it is not overwritten), and the count is the number of
  callable globals among the other requested names.
\<close>

theorem uncallable_global_kept:
  assumes "parse E (c_str definition) ''lua-script'' = Compiled"
    and "run E (next_ref L) [] (chunk_loaded (c_str definition) L) = Finished rs L1"
    and "i < length functions"
    and "\<not> is_callable (global_of (globals L1) (functions ! i))"
    and "global_of (globals L1) (functions ! i) \<noteq> Nil"
  shows "parseStringDefiningMultipleFunctions E L definition functions errorMessage =
           Some (int (length (filter (\<lambda>n. is_callable (global_of (globals L1) n))
                        (take i functions @ drop (Suc i) functions))),
                 L1\<lparr>stack := map (extracted (globals L1)) functions @ stack L\<rparr>,
                 errorMessage)
         \<and> stack (L1\<lparr>stack := map (extracted (globals L1)) functions @ stack L\<rparr>) ! i = Nil
         \<and> global_of (globals (L1\<lparr>stack := map (extracted (globals L1)) functions @ stack L\<rparr>))
               (functions ! i) = global_of (globals L1) (functions ! i)
         \<and> global_of (globals (L1\<lparr>stack := map (extracted (globals L1)) functions @ stack L\<rparr>))
               (functions ! i) \<noteq> Nil
         \<and> extracted (globals L1) (functions ! i) = Nil"
proof -
  let ?P = "\<lambda>n. is_callable (global_of (globals L1) n)"
  let ?L' = "L1\<lparr>stack := map (extracted (globals L1)) functions @ stack L\<rparr>"
  have run: "parseStringDefiningMultipleFunctions E L definition functions errorMessage =
      Some (int (length (filter ?P functions)), ?L', errorMessage)"
    by (rule parse_success[OF assms(1,2)])
  have slot: "stack ?L' ! i = Nil"
    using assms(3,4) by (simp add: nth_append extracted_def)
  have "functions = take i functions @ functions ! i # drop (Suc i) functions"
    using assms(3) by (rule id_take_nth_drop)
  then have "filter ?P functions =
      filter ?P (take i functions) @ filter ?P (functions ! i # drop (Suc i) functions)"
    by (metis filter_append)
  then have cnt: "length (filter ?P functions) =
      length (filter ?P (take i functions @ drop (Suc i) functions))"
    using assms(4) by simp
  have "extracted (globals L1) (functions ! i) = Nil"
    using assms(4) by (simp add: extracted_def)
  then show ?thesis
    using run slot cnt assms(5) by simp
qed

text \<open>A run of C3: the global \<open>f\<close> of \<open>demo_state\<close> is a string.\<close>

theorem uncallable_global_kept_witness:
  "parse demo_engine (c_str ''return'') ''lua-script'' = Compiled
   \<and> run demo_engine (next_ref demo_state) [] (chunk_loaded (c_str ''return'') demo_state)
       = Finished [] (chunk_loaded ''return'' demo_state)
   \<and> global_of (globals (chunk_loaded ''return'' demo_state)) ([''f''] ! 0) = String ''x''
   \<and> parseStringDefiningMultipleFunctions demo_engine demo_state ''return'' [''f''] [] =
       Some (0, demo_extracted, [])
   \<and> stack demo_extracted ! 0 = Nil
   \<and> global_of (globals demo_extracted) ''f'' = String ''x''"
proof -
  have p: "parse demo_engine (c_str ''return'') ''lua-script'' = Compiled"
    by (simp add: demo_engine_def c_str_demo)
  have r: "run demo_engine (next_ref demo_state) [] (chunk_loaded (c_str ''return'') demo_state)
       = Finished [] (chunk_loaded (c_str ''return'') demo_state)"
    by (simp add: demo_engine_def)
  have g: "global_of (globals (chunk_loaded (c_str ''return'') demo_state)) ([''f''] ! 0) = String ''x''"
    by (simp add: global_of_def chunk_loaded_def demo_state_def rawget_def c_str_demo)
  have i: "(0::nat) < length [''f'']" by simp
  have nc: "\<not> is_callable (global_of (globals (chunk_loaded (c_str ''return'') demo_state)) ([''f''] ! 0))"
    and nn: "global_of (globals (chunk_loaded (c_str ''return'') demo_state)) ([''f''] ! 0) \<noteq> Nil"
    unfolding g by (simp_all add: is_callable_def)
  have ex: "extracted (globals (chunk_loaded ''return'' demo_state)) ''f'' = Nil"
    using g by (simp add: extracted_def is_callable_def c_str_demo)
  have st: "stack demo_state = [Function 0]" by (simp add: demo_state_def)
  have ge: "global_of (globals demo_extracted) ''f'' = String ''x''"
    by (simp add: global_of_def demo_extracted_def rawget_def c_str_demo)
  from uncallable_global_kept[OF p r i nc nn, of "[]"] p r g ex st demo_chunk_loaded ge
  show ?thesis by (simp add: c_str_demo demo_extracted_def)
qed

text \<open>
  C3 as stated fails: after the loader has run, the global \<open>f\<close> still holds the string; only
  the stack slot is nil.
\<close>

theorem global_overwritten_counterexample:
  "parseStringDefiningMultipleFunctions demo_engine demo_state ''return'' [''f''] [] =
       Some (0, demo_extracted, [])
   \<and> global_of (globals demo_state) ''f'' = String ''x''
   \<and> global_of (globals demo_extracted) ''f'' = String ''x''
   \<and> global_of (globals demo_extracted) ''f'' \<noteq> Nil"
proof -
  have p: "parse demo_engine (c_str ''return'') ''lua-script'' = Compiled"
    by (simp add: demo_engine_def c_str_demo)
  have r: "run demo_engine (next_ref demo_state) [] (chunk_loaded (c_str ''return'') demo_state)
       = Finished [] (chunk_loaded (c_str ''return'') demo_state)"
    by (simp add: demo_engine_def)
  have ex: "extracted (globals (chunk_loaded ''return'' demo_state)) ''f'' = Nil"
    by (simp add: extracted_def is_callable_def c_str_demo global_of_def chunk_loaded_def
        demo_state_def rawget_def)
  have st: "stack demo_state = [Function 0]" by (simp add: demo_state_def)
  have "parseStringDefiningMultipleFunctions demo_engine demo_state ''return'' [''f''] [] =
       Some (0, demo_extracted, [])"
    using parse_success[OF p r, of "[''f'']" "[]"] ex st demo_chunk_loaded
    by (simp add: c_str_demo is_callable_def global_of_def chunk_loaded_def demo_state_def rawget_def)
  then show ?thesis
    by (simp add: global_of_def demo_state_def demo_extracted_def rawget_def c_str_demo)
qed

text \<open>
  C8. For every engine, prelude text, engine state and output so far, the prelude loader
  returns, and the value it returns is true: also when the prelude does not compile and when
  running it raises an error.
\<close>

theorem loadSurgePrelude_reports_success:
  "\<exists>s' out'. loadSurgePrelude E surge_prelude s out = Some (True, s', out')"
  using loadSurgePrelude_closed[of E surge_prelude s out] by blast

text \<open>
  C10. After every call of the prelude loader the global \<open>surge\<close> holds the value that the
  protected call left on top of the stack: the first value returned by the chunk when it
  compiled and ran, the error object when it raised, and the engine's error object for calling
  a string when the prelude did not compile. The stack is as before the call and the guard
  writes nothing.
\<close>

theorem loadSurgePrelude_assigns_surge:
  "\<exists>load_stat s1 pcall s2 s' out'.
     luaL_loadbuffer E surge_prelude (length surge_prelude) (c_str surge_prelude) s
       = Some (load_stat, s1)
     \<and> lua_pcall E 0 1 s1 = Some (pcall, s2)
     \<and> loadSurgePrelude E surge_prelude s out = Some (True, s', out')
     \<and> stack s2 \<noteq> []
     \<and> rawget (globals s') (String ''surge'') = hd (stack s2)
     \<and> hd (stack s2) = prelude_result E surge_prelude s
     \<and> stack s' = stack s \<and> out' = out"
proof -
  from loadSurgePrelude_closed[of E surge_prelude s out] obtain load_stat s1 pcall s2 where
    a: "luaL_loadbuffer E surge_prelude (length surge_prelude) (c_str surge_prelude) s
       = Some (load_stat, s1)"
    and b: "lua_pcall E 0 1 s1 = Some (pcall, s2)"
    and c: "stack s2 = prelude_result E surge_prelude s # stack s"
    and d: "loadSurgePrelude E surge_prelude s out =
         Some (True,
               s2\<lparr>stack := stack s,
                  globals := rawset (globals s2) (String ''surge'') (prelude_result E surge_prelude s)\<rparr>,
               out)"
    by blast
  show ?thesis
    apply (rule exI[of _ load_stat], rule exI[of _ s1], rule exI[of _ pcall], rule exI[of _ s2])
    using a b c d by (simp add: rawget_rawset)
qed


text \<open>A run of C10 on the failure path: the global \<open>surge\<close> was nil and now holds the error object.\<close>

theorem loadSurgePrelude_assigns_surge_witness:
  "parse demo_engine ''('' (c_str ''('') = LoadFailed SyntaxFailure ''unexpected symbol''
   \<and> rawget (globals demo_state) (String ''surge'') = Nil
   \<and> loadSurgePrelude demo_engine ''('' demo_state [] = Some (True, demo_prelude_failed, [])
   \<and> rawget (globals demo_prelude_failed) (String ''surge'')
       = String ''attempt to call a string value''"
proof -
  have p: "parse demo_engine ''('' (c_str ''('') = LoadFailed SyntaxFailure ''unexpected symbol''"
    by (simp add: demo_engine_def)
  then have pr: "prelude_result demo_engine ''('' demo_state = String ''attempt to call a string value''"
    by (simp add: prelude_result_def)
  have run: "loadSurgePrelude demo_engine ''('' demo_state [] = Some (True, demo_prelude_failed, [])"
    using p
    by (simp add: loadSurgePrelude_def luaL_loadbuffer_def lua_pcall_def lua_setglobal_def
        SGLD_create_def SGLD_destroy_def lua_gettop_def Let_def demo_state_def
        demo_prelude_failed_def rawset_def)
  from loadSurgePrelude_assigns_surge[of demo_engine "''(''" demo_state "[]"] run pr p
  show ?thesis by (auto simp: demo_state_def rawget_def)
qed

text \<open>
  C5. Let the argument of \<open>fft_forward\<close>, on top of the stack, be a table of the heap (with
  fewer than \<open>2^64\<close> entries). If its length is not a power of two, which includes the length
  0, the call raises the error \<open>FFT size must be a power of two.\<close> into the engine: it does
  not return, consults neither the cache nor the transform, and leaves the cache as it was. If
  the length is a power of two, that error is not raised.
\<close>

theorem fft_forward_rejects_other_lengths:
  assumes "stack L = Table r # rest" and "tables L r = Some t" and "length t < 2 ^ 64"
  shows "(\<not> (\<exists>k. objlen t = 2 ^ k) \<longrightarrow>
            lua_FFTForward E pffft_transform CH L =
              (Raises (ErrorMessage ''FFT size must be a power of two.''), CH))
         \<and> ((\<exists>k. objlen t = 2 ^ k) \<longrightarrow>
              fst (lua_FFTForward E pffft_transform CH L)
                \<noteq> Raises (ErrorMessage ''FFT size must be a power of two.''))"
  using lua_FFTForward_on_table[OF assms] by simp

text \<open>Runs of C5 on sequences of length 7, 0 and 8.\<close>

theorem fft_forward_rejects_other_lengths_witness:
  "lua_FFTForward demo_engine demo_transform (fftCache, no_native) (fft_state (zeros 7)) =
     (Raises (ErrorMessage ''FFT size must be a power of two.''), (fftCache, no_native))
   \<and> lua_FFTForward demo_engine demo_transform (fftCache, no_native) (fft_state (zeros 0)) =
     (Raises (ErrorMessage ''FFT size must be a power of two.''), (fftCache, no_native))
   \<and> fst (lua_FFTForward demo_engine demo_transform (fftCache, no_native) (fft_state (zeros 8)))
       \<noteq> Raises (ErrorMessage ''FFT size must be a power of two.'')"
proof -
  have l: "length (zeros 7) < 2 ^ 64" "length (zeros 0) < 2 ^ 64" "length (zeros 8) < 2 ^ 64"
    by (simp_all add: length_zeros)
  have n7: "\<not> (\<exists>k. objlen (zeros 7) = 2 ^ k)"
    using seven_no_power by (simp add: objlen_zeros)
  have n0: "\<not> (\<exists>k. objlen (zeros 0) = 2 ^ k)"
    by (simp add: objlen_zeros)
  have "(8::nat) = 2 ^ 3" by simp
  then have p8: "\<exists>k. objlen (zeros 8) = 2 ^ k"
    unfolding objlen_zeros by (rule exI)
  from fft_forward_rejects_other_lengths[OF fft_state_table l(1), of demo_engine demo_transform
      "(fftCache, no_native)"]
    fft_forward_rejects_other_lengths[OF fft_state_table l(2), of demo_engine demo_transform
      "(fftCache, no_native)"]
    fft_forward_rejects_other_lengths[OF fft_state_table l(3), of demo_engine demo_transform
      "(fftCache, no_native)"]
    n7 n0 p8
  show ?thesis by blast
qed

text \<open>
  C2. The code does not do what the claim says: called with the sequence of eight zeros,
  \<open>lua_FFTForward\<close> does not return a sequence. After \<^verbatim>\<open>lua_rawgeti(L, -1, i+1)\<close> has pushed
  the first element, \<^verbatim>\<open>luaL_checknumber(L, -2)\<close> checks the table below it instead of the
  element, and raises a bad-argument error, for every engine, transform and cache.
\<close>

theorem fft_forward_zeros_raises:
  "fst (lua_FFTForward E pffft_transform CH (fft_state (zeros 8)))
     = Raises (BadArgument (-2) ''number'' ''table'')"
proof -
  have "(8::nat) = 2 ^ 3" by simp
  then have p8: "\<exists>k. objlen (zeros 8) = 2 ^ k"
    unfolding objlen_zeros by (rule exI)
  have l: "length (zeros 8) < 2 ^ 64" by (simp add: length_zeros)
  show ?thesis
    using lua_FFTForward_on_table[OF fft_state_table l, of E pffft_transform CH] p8 by simp
qed




end
